theory Spec2Isabelle
  imports Main
begin

section \<open>The decoded document\<close>

text \<open>
  The views of \<^verbatim>\<open>aiowolframalpha\<close> are \<^verbatim>\<open>dict\<close> subclasses wrapped around the output
  of the XML decoder (\<^verbatim>\<open>xmltodict.parse(stream, dict_constructor=dict)\<close>). That output
  is a tree: an element is \<^verbatim>\<open>None\<close> (empty element), a string (text only) or a mapping
  with string keys (children under their tag, attributes under \<^verbatim>\<open>'@' + name\<close>); the
  value under a key is one element, or a list of elements when the tag repeats. A list
  never holds a list.
\<close>

datatype node = NNone | NStr string | NDict "(string \<times> val) list"
  and val = Single node | Many "node list"

type_synonym dict = "(string \<times> val) list"

text \<open>
  A mapping is an association list in insertion order; \<^verbatim>\<open>self[k]\<close> is \<^term>\<open>map_of d k\<close>
  and \<^verbatim>\<open>k in self\<close> is \<^term>\<open>map_of d k \<noteq> None\<close>. Strings are lists of 8-bit characters.
\<close>

datatype error =
    Exception string
  | AttributeError string
  | KeyError string
  | TypeError
  | ValueError
  | StopIteration
  | JSONDecodeError

datatype cls = Document | Assumption | Warning | Image | Subpod | Pod | Result

datatype view = View (cls_of: cls) (items: dict)

text \<open>
  What iterating yields: a wrapped view, or a bare element of the document. What an
  attribute access yields: a raw value of the document, the result of a conversion
  (\<^verbatim>\<open>int\<close>, \<^verbatim>\<open>float\<close>), a lazy iterator (\<^verbatim>\<open>map\<close>, \<^verbatim>\<open>itertools.chain\<close>, a
  generator), or the bound method of a string, named. A lazy iterator is the list of the
  outcomes of its successive \<^verbatim>\<open>next\<close> calls: \<^term>\<open>Inl e\<close> where producing the item
  raises \<open>e\<close>. A consumer stops at the first \<^term>\<open>Inl e\<close>.
\<close>

datatype elem = Obj view | Node node

datatype 'f attr = Raw val | PInt int | PFloat 'f | Iter "(error + elem) list" | Method string

text \<open>
  The built-ins of the interpreter that the library calls and that are not modelled
  here are parameters: \<^verbatim>\<open>int(x)\<close>, \<^verbatim>\<open>float(x)\<close> (\<open>'f\<close> stands for the floats) and the
  \<^verbatim>\<open>str\<close> of a list or a mapping.
\<close>

record 'f builtins =
  py_int :: "val \<Rightarrow> error + int"
  py_float :: "val \<Rightarrow> error + 'f"
  py_repr :: "val \<Rightarrow> string"

section \<open>Construction and the error check\<close>

text \<open>
  \<^verbatim>\<open>dict(x)\<close> for an element \<open>x\<close> of the document: a mapping is copied; \<^verbatim>\<open>None\<close> is not
  iterable (TypeError); a string is read as a sequence of key/value pairs, which the
  empty string is and no other string is (its first character is not a pair:
  ValueError).
\<close>

definition dict_init :: "node \<Rightarrow> error + dict" where
  "dict_init n =
     (case n of
        NDict d \<Rightarrow> Inr d
      | NNone \<Rightarrow> Inl TypeError
      | NStr s \<Rightarrow> (if s = [] then Inr [] else Inl ValueError))"

text \<open>\<^verbatim>\<open>v[k]\<close> for a string key, as the format field \<^verbatim>\<open>{error[code]}\<close> evaluates it.\<close>

definition getitem :: "val \<Rightarrow> string \<Rightarrow> error + val" where
  "getitem v k =
     (case v of
        Single (NDict d) \<Rightarrow> (case map_of d k of Some x \<Rightarrow> Inr x | None \<Rightarrow> Inl (KeyError k))
      | _ \<Rightarrow> Inl TypeError)"

text \<open>How \<^verbatim>\<open>str.format\<close> renders a field with an empty format specification.\<close>

definition format_field :: "'f builtins \<Rightarrow> val \<Rightarrow> string" where
  "format_field B v =
     (case v of
        Single (NStr s) \<Rightarrow> s
      | Single NNone \<Rightarrow> ''None''
      | _ \<Rightarrow> py_repr B v)"

text \<open>
  \<^verbatim>\<open>ErrorHandler._handle_error\<close>:
  \<^verbatim>\<open>
    if 'error' not in self: return
    template = 'Error {error[code]}: {error[msg]}'
    raise Exception(template.format(**self))
  \<close>
\<close>

definition handle_error :: "'f builtins \<Rightarrow> dict \<Rightarrow> error + unit" where
  "handle_error B d =
     (case map_of d ''error'' of
        None \<Rightarrow> Inr ()
      | Some e \<Rightarrow>
          (case getitem e ''code'' of
             Inl x \<Rightarrow> Inl x
           | Inr c \<Rightarrow>
               (case getitem e ''msg'' of
                  Inl x \<Rightarrow> Inl x
                | Inr m \<Rightarrow>
                    Inl (Exception (''Error '' @ format_field B c @ '': '' @ format_field B m)))))"

text \<open>
  \<^verbatim>\<open>cls(x)\<close>: every class initialises the mapping with \<^verbatim>\<open>dict.__init__\<close>; \<^verbatim>\<open>Pod\<close> and
  \<^verbatim>\<open>Result\<close> inherit \<^verbatim>\<open>ErrorHandler.__init__\<close>, which then runs the error check.
\<close>

definition is_error_handler :: "cls \<Rightarrow> bool" where
  "is_error_handler c = (c = Pod \<or> c = Result)"

definition new :: "'f builtins \<Rightarrow> cls \<Rightarrow> node \<Rightarrow> error + view" where
  "new B c n =
     (case dict_init n of
        Inl e \<Rightarrow> Inl e
      | Inr d \<Rightarrow>
          (if is_error_handler c
           then (case handle_error B d of Inl e \<Rightarrow> Inl e | Inr u \<Rightarrow> Inr (View c d))
           else Inr (View c d)))"

text \<open>
  \<^verbatim>\<open>Result.__init__(stream)\<close> decodes the XML text and takes the value under
  \<^verbatim>\<open>'queryresult'\<close>; the decoder is outside the library, so the decoded root element is
  the argument here.
\<close>

definition Result_init :: "'f builtins \<Rightarrow> node \<Rightarrow> error + view" where
  "Result_init B doc = new B Result doc"

section \<open>Wrapping children and attribute access\<close>

text \<open>
  \<^verbatim>\<open>always_iterable(doc, base_type=dict)\<close>: nothing for \<^verbatim>\<open>None\<close>, the mapping itself for
  a mapping, and otherwise \<^verbatim>\<open>iter(doc)\<close>: the items of a list, the characters of a
  string.
\<close>

definition always_iterable :: "val \<Rightarrow> node list" where
  "always_iterable v =
     (case v of
        Single NNone \<Rightarrow> []
      | Single (NDict d) \<Rightarrow> [NDict d]
      | Single (NStr s) \<Rightarrow> map (\<lambda>c. NStr [c]) s
      | Many ns \<Rightarrow> ns)"

text \<open>\<^verbatim>\<open>Document.from_doc\<close>: \<^verbatim>\<open>map(cls, always_iterable(doc, base_type=dict))\<close>.\<close>

definition from_doc :: "'f builtins \<Rightarrow> cls \<Rightarrow> val \<Rightarrow> (error + elem) list" where
  "from_doc B c v = map (\<lambda>n. map_sum id Obj (new B c n)) (always_iterable v)"

definition conv_int :: "'f builtins \<Rightarrow> val \<Rightarrow> error + 'f attr" where
  "conv_int B v = map_sum id PInt (py_int B v)"

definition conv_float :: "'f builtins \<Rightarrow> val \<Rightarrow> error + 'f attr" where
  "conv_float B v = map_sum id PFloat (py_float B v)"

definition conv_from_doc :: "'f builtins \<Rightarrow> cls \<Rightarrow> val \<Rightarrow> error + 'f attr" where
  "conv_from_doc B c v = Inr (Iter (from_doc B c v))"

text \<open>The class attribute \<^verbatim>\<open>_attr_types\<close> of each class.\<close>

definition attr_types :: "'f builtins \<Rightarrow> cls \<Rightarrow> string \<Rightarrow> (val \<Rightarrow> error + 'f attr) option" where
  "attr_types B c =
     (case c of
        Image \<Rightarrow> map_of [(''height'', conv_int B), (''width'', conv_int B)]
      | Subpod \<Rightarrow> map_of [(''img'', conv_from_doc B Image)]
      | Pod \<Rightarrow> map_of [(''position'', conv_float B), (''numsubpods'', conv_int B),
                        (''subpod'', conv_from_doc B Subpod)]
      | Result \<Rightarrow> map_of [(''pod'', conv_from_doc B Pod)]
      | _ \<Rightarrow> Map.empty)"

text \<open>
  \<^verbatim>\<open>Document.__getattr__\<close>, which the interpreter calls for a name that is no attribute of
  the instance or its class:
  \<^verbatim>\<open>
    type = self._attr_types.get(name, lambda x: x)
    attr_name = '@' + name
    try:
        val = self[name] if name in self else self[attr_name]
    except KeyError:
        raise AttributeError(name)
    return type(val)
  \<close>
\<close>

definition conversion :: "'f builtins \<Rightarrow> cls \<Rightarrow> string \<Rightarrow> val \<Rightarrow> error + 'f attr" where
  "conversion B c name = (case attr_types B c name of Some f \<Rightarrow> f | None \<Rightarrow> (\<lambda>x. Inr (Raw x)))"

definition getattr :: "'f builtins \<Rightarrow> view \<Rightarrow> string \<Rightarrow> error + 'f attr" where
  "getattr B self name =
     (let type = conversion B (cls_of self) name
      in case map_of (items self) name of
           Some v \<Rightarrow> type v
         | None \<Rightarrow>
             (case map_of (items self) (CHR ''@'' # name) of
                Some v \<Rightarrow> type v
              | None \<Rightarrow> Inl (AttributeError name)))"

text \<open>
  The lookup as the specification words it: the value under the plain field name,
  otherwise the value under the \<^verbatim>\<open>@\<close>-prefixed attribute name.
\<close>

definition lookup :: "dict \<Rightarrow> string \<Rightarrow> val option" where
  "lookup d name = (case map_of d name of Some v \<Rightarrow> Some v | None \<Rightarrow> map_of d (CHR ''@'' # name))"

section \<open>Iteration and properties\<close>

text \<open>
  \<^verbatim>\<open>iter(x)\<close> for the value of an attribute: a list gives its items, a string its
  characters, a mapping its keys; \<^verbatim>\<open>None\<close> and numbers are not iterable; a lazy iterator
  is its own iterator.
\<close>

definition iterate :: "'f attr \<Rightarrow> error + (error + elem) list" where
  "iterate a =
     (case a of
        Raw (Single NNone) \<Rightarrow> Inl TypeError
      | Raw (Single (NStr s)) \<Rightarrow> Inr (map (\<lambda>c. Inr (Node (NStr [c]))) s)
      | Raw (Single (NDict d)) \<Rightarrow> Inr (map (\<lambda>kv. Inr (Node (NStr (fst kv)))) d)
      | Raw (Many ns) \<Rightarrow> Inr (map (\<lambda>n. Inr (Node n)) ns)
      | PInt i \<Rightarrow> Inl TypeError
      | PFloat x \<Rightarrow> Inl TypeError
      | Iter xs \<Rightarrow> Inr xs
      | Method n \<Rightarrow> Inl TypeError)"

text \<open>
  A property whose getter raises \<^verbatim>\<open>AttributeError\<close> is, for the interpreter, a failed
  attribute lookup: since \<^verbatim>\<open>Document\<close> defines \<^verbatim>\<open>__getattr__\<close>, the interpreter then
  calls \<^verbatim>\<open>__getattr__\<close> with the property's name. Any other exception propagates.
\<close>

definition property :: "'f builtins \<Rightarrow> view \<Rightarrow> string \<Rightarrow> error + 'f attr \<Rightarrow> error + 'f attr" where
  "property B self name body =
     (case body of
        Inl (AttributeError n) \<Rightarrow> getattr B self name
      | _ \<Rightarrow> body)"

text \<open>
  A property that returns a list or a mapping built by the library: its value, or the
  value \<^verbatim>\<open>__getattr__\<close> found under the property's name after the getter raised
  \<^verbatim>\<open>AttributeError\<close>.
\<close>

datatype ('a, 'f) propval = Value 'a | Fallback "'f attr"

definition property' :: "'f builtins \<Rightarrow> view \<Rightarrow> string \<Rightarrow> error + 'a \<Rightarrow> error + ('a, 'f) propval" where
  "property' B self name body =
     (case body of
        Inl (AttributeError n) \<Rightarrow> map_sum id Fallback (getattr B self name)
      | Inl e \<Rightarrow> Inl e
      | Inr x \<Rightarrow> Inr (Value x))"

text \<open>
  \<^verbatim>\<open>e.name\<close> for an item \<open>e\<close> of an iteration and one of the names that the library reads
  this way, \<^verbatim>\<open>title\<close>, \<^verbatim>\<open>plaintext\<close> and \<^verbatim>\<open>plainText\<close>, none of them a property of
  a view's class: a view answers through \<^verbatim>\<open>__getattr__\<close>; of the bare elements of the
  document, a string has the method \<^verbatim>\<open>title\<close>, and \<^verbatim>\<open>None\<close>, a mapping and a string
  have no other attribute of these names.
\<close>

definition builtin_attr :: "node \<Rightarrow> string \<Rightarrow> bool" where
  "builtin_attr n name = (case n of NStr s \<Rightarrow> name = ''title'' | _ \<Rightarrow> False)"

definition elem_getattr :: "'f builtins \<Rightarrow> elem \<Rightarrow> string \<Rightarrow> error + 'f attr" where
  "elem_getattr B e name =
     (case e of
        Obj v \<Rightarrow> getattr B v name
      | Node n \<Rightarrow> (if builtin_attr n name then Inr (Method name) else Inl (AttributeError name)))"

text \<open>
  A list comprehension \<^verbatim>\<open>[f(x) for x in it]\<close> over the outcomes of an iterator: the first
  exception, of the iterator or of \<open>f\<close>, ends it.
\<close>

fun comprehension :: "('a \<Rightarrow> error + 'b) \<Rightarrow> (error + 'a) list \<Rightarrow> error + 'b list" where
  "comprehension f [] = Inr []"
| "comprehension f (Inl e # xs) = Inl e"
| "comprehension f (Inr x # xs) =
     (case f x of
        Inl e \<Rightarrow> Inl e
      | Inr y \<Rightarrow> (case comprehension f xs of Inl e \<Rightarrow> Inl e | Inr ys \<Rightarrow> Inr (y # ys)))"

subsection \<open>Pod\<close>


text \<open>\<^verbatim>\<open>Pod.texts\<close>: \<^verbatim>\<open>return [subpod.plaintext for subpod in self.subpod]\<close>.\<close>

definition Pod_texts :: "'f builtins \<Rightarrow> view \<Rightarrow> error + ('f attr list, 'f) propval" where
  "Pod_texts B self =
     property' B self ''texts''
       (case getattr B self ''subpod'' of
          Inl e \<Rightarrow> Inl e
        | Inr a \<Rightarrow>
            (case iterate a of
               Inl e \<Rightarrow> Inl e
             | Inr xs \<Rightarrow> comprehension (\<lambda>subpod. elem_getattr B subpod ''plaintext'') xs))"

text \<open>
  \<^verbatim>\<open>Pod.text\<close>: \<^verbatim>\<open>return next(iter(self.subpod)).plaintext\<close>; \<^verbatim>\<open>next\<close> on an exhausted
  iterator raises \<^verbatim>\<open>StopIteration\<close>.
\<close>

definition Pod_text :: "'f builtins \<Rightarrow> view \<Rightarrow> error + 'f attr" where
  "Pod_text B self =
     property B self ''text''
       (case getattr B self ''subpod'' of
          Inl e \<Rightarrow> Inl e
        | Inr a \<Rightarrow>
            (case iterate a of
               Inl e \<Rightarrow> Inl e
             | Inr [] \<Rightarrow> Inl StopIteration
             | Inr (Inl e # xs) \<Rightarrow> Inl e
             | Inr (Inr subpod # xs) \<Rightarrow> elem_getattr B subpod ''plaintext''))"

section \<open>Boolean attributes\<close>

text \<open>
  \<^verbatim>\<open>xml_bool\<close> is \<^verbatim>\<open>bool(json.loads(str_val))\<close>. The decoder of the standard library is
  modelled after its scanner: optional whitespace, one value, optional whitespace, end
  of input. Not modelled: the limits of the interpreter (recursion depth, the digits of
  an integer literal) and characters beyond 8 bits in the input.
\<close>

datatype json =
    JNull
  | JBool bool
  | JInt int
  | JFloat int int
  | JNaN
  | JInfinity bool
  | JString "nat list"
  | JArray "json list"
  | JObject "(nat list \<times> json) list"

text \<open>
  \<^term>\<open>JFloat m e\<close> stands for the float nearest to the decimal \<open>m \<sqdot> 10\<^sup>e\<close> that the
  literal denotes, \<^term>\<open>JInfinity neg\<close> for the constants \<^verbatim>\<open>Infinity\<close> and
  \<^verbatim>\<open>-Infinity\<close>; a string is the list of its code points.
\<close>

text \<open>Storing under a key of a mapping: an existing key keeps its place.\<close>

fun dict_set :: "'k \<Rightarrow> 'v \<Rightarrow> ('k \<times> 'v) list \<Rightarrow> ('k \<times> 'v) list" where
  "dict_set k v [] = [(k, v)]"
| "dict_set k v ((k', v') # kvs) =
     (if k = k' then (k', v) # kvs else (k', v') # dict_set k v kvs)"

definition is_ws :: "char \<Rightarrow> bool" where
  "is_ws c = (c = CHR '' '' \<or> c = CHR 0x09 \<or> c = CHR 0x0A \<or> c = CHR 0x0D)"

definition skip_ws :: "string \<Rightarrow> string" where
  "skip_ws s = dropWhile is_ws s"

definition is_digit :: "char \<Rightarrow> bool" where
  "is_digit c = (of_char CHR ''0'' \<le> (of_char c :: nat) \<and> (of_char c :: nat) \<le> of_char CHR ''9'')"

definition digit_val :: "char \<Rightarrow> nat" where
  "digit_val c = of_char c - of_char CHR ''0''"

definition nat_of_digits :: "string \<Rightarrow> nat" where
  "nat_of_digits ds = foldl (\<lambda>a c. 10 * a + digit_val c) 0 ds"

definition hex_val :: "char \<Rightarrow> nat option" where
  "hex_val c =
     (if is_digit c then Some (digit_val c)
      else if of_char CHR ''a'' \<le> (of_char c :: nat) \<and> (of_char c :: nat) \<le> of_char CHR ''f'' then Some (of_char c - of_char CHR ''a'' + 10)
      else if of_char CHR ''A'' \<le> (of_char c :: nat) \<and> (of_char c :: nat) \<le> of_char CHR ''F'' then Some (of_char c - of_char CHR ''A'' + 10)
      else None)"

text \<open>The four hexadecimal digits of a \<^verbatim>\<open>\uXXXX\<close> escape.\<close>

definition hex4 :: "string \<Rightarrow> nat option" where
  "hex4 s =
     (case s of
        a # b # c # d # r \<Rightarrow>
          (case (hex_val a, hex_val b, hex_val c, hex_val d) of
             (Some x, Some y, Some z, Some w) \<Rightarrow> Some (((x * 16 + y) * 16 + z) * 16 + w)
           | _ \<Rightarrow> None)
      | _ \<Rightarrow> None)"

definition escape :: "char \<Rightarrow> nat option" where
  "escape c =
     (if c = CHR 0x22 then Some 0x22
      else if c = CHR 0x5C then Some 0x5C
      else if c = CHR ''/'' then Some 0x2F
      else if c = CHR ''b'' then Some 0x08
      else if c = CHR ''f'' then Some 0x0C
      else if c = CHR ''n'' then Some 0x0A
      else if c = CHR ''r'' then Some 0x0D
      else if c = CHR ''t'' then Some 0x09
      else None)"

text \<open>
  \<^verbatim>\<open>scanstring\<close> in strict mode, from the character after the opening quote: the code
  points up to the closing quote and the input after it. A high surrogate escape
  followed by a low surrogate escape is one code point.
\<close>

definition push :: "nat \<Rightarrow> error + (nat list \<times> string) \<Rightarrow> error + (nat list \<times> string)" where
  "push cp res = map_sum id (\<lambda>(cs, t). (cp # cs, t)) res"

definition join_surrogates :: "nat \<Rightarrow> nat \<Rightarrow> nat" where
  "join_surrogates hi lo = 0x10000 + (hi - 0xD800) * 0x400 + (lo - 0xDC00)"

fun scanstring :: "string \<Rightarrow> error + (nat list \<times> string)" where
  "scanstring [] = Inl JSONDecodeError"
| "scanstring (c # r) =
     (if c = CHR 0x22 then Inr ([], r)
      else if c = CHR 0x5C then
        (case r of
           [] \<Rightarrow> Inl JSONDecodeError
         | e # r' \<Rightarrow>
             (if e = CHR ''u'' then
                (case hex4 r' of
                   None \<Rightarrow> Inl JSONDecodeError
                 | Some hi \<Rightarrow>
                     (if 0xD800 \<le> hi \<and> hi \<le> 0xDBFF \<and> take 2 (drop 4 r') = [CHR 0x5C, CHR ''u'']
                      then
                        (case hex4 (drop 6 r') of
                           None \<Rightarrow> Inl JSONDecodeError
                         | Some lo \<Rightarrow>
                             (if 0xDC00 \<le> lo \<and> lo \<le> 0xDFFF
                              then push (join_surrogates hi lo) (scanstring (drop 10 r'))
                              else push hi (scanstring (drop 4 r'))))
                      else push hi (scanstring (drop 4 r'))))
              else
                (case escape e of
                   None \<Rightarrow> Inl JSONDecodeError
                 | Some cp \<Rightarrow> push cp (scanstring r'))))
      else if of_char c < (0x20 :: nat) then Inl JSONDecodeError
      else push (of_char c) (scanstring r))"

text \<open>
  The number pattern \<^verbatim>\<open>(-?(?:0|[1-9]\d*))(\.\d+)?([eE][-+]?\d+)?\<close>: the integer part,
  the fraction and the exponent where present, and the input after the match.
\<close>

definition match_integer :: "string \<Rightarrow> (bool \<times> string \<times> string) option" where
  "match_integer s =
     (let neg = (s \<noteq> [] \<and> hd s = CHR ''-'');
          s1 = (if neg then tl s else s)
      in case s1 of
           [] \<Rightarrow> None
         | c # r \<Rightarrow>
             (if c = CHR ''0'' then Some (neg, [c], r)
              else if is_digit c then Some (neg, c # takeWhile is_digit r, dropWhile is_digit r)
              else None))"

definition match_frac :: "string \<Rightarrow> (string \<times> string) option" where
  "match_frac s =
     (case s of
        c # d # r \<Rightarrow>
          (if c = CHR ''.'' \<and> is_digit d
           then Some (takeWhile is_digit (d # r), dropWhile is_digit (d # r))
           else None)
      | _ \<Rightarrow> None)"

definition match_exp :: "string \<Rightarrow> (int \<times> string) option" where
  "match_exp s =
     (case s of
        c # r \<Rightarrow>
          (if c = CHR ''e'' \<or> c = CHR ''E'' then
             (let neg = (r \<noteq> [] \<and> hd r = CHR ''-'');
                  r1 = (if r \<noteq> [] \<and> (hd r = CHR ''-'' \<or> hd r = CHR ''+'') then tl r else r)
              in if r1 \<noteq> [] \<and> is_digit (hd r1)
                 then Some ((if neg then - 1 else 1) * int (nat_of_digits (takeWhile is_digit r1)),
                            dropWhile is_digit r1)
                 else None)
           else None)
      | [] \<Rightarrow> None)"

text \<open>
  A match with neither fraction nor exponent is an \<^verbatim>\<open>int\<close>, any other a \<^verbatim>\<open>float\<close> of
  the matched text.
\<close>

definition match_number :: "string \<Rightarrow> (json \<times> string) option" where
  "match_number s =
     (case match_integer s of
        None \<Rightarrow> None
      | Some (neg, ip, r1) \<Rightarrow>
          (let sign = (if neg then - 1 else 1 :: int) in
           case match_frac r1 of
             None \<Rightarrow>
               (case match_exp r1 of
                  None \<Rightarrow> Some (JInt (sign * int (nat_of_digits ip)), r1)
                | Some (ex, r3) \<Rightarrow> Some (JFloat (sign * int (nat_of_digits ip)) ex, r3))
           | Some (fp, r2) \<Rightarrow>
               (case match_exp r2 of
                  None \<Rightarrow> Some (JFloat (sign * int (nat_of_digits (ip @ fp))) (- int (length fp)), r2)
                | Some (ex, r3) \<Rightarrow>
                    Some (JFloat (sign * int (nat_of_digits (ip @ fp))) (ex - int (length fp)), r3))))"

text \<open>
  The scanner. Its recursion follows the nesting of the document, and the loops over
  the items of an array and the members of an object are recursive too; the first
  argument bounds the depth of these calls, and \<^term>\<open>None\<close> means that the bound was
  reached. \<open>parse_array\<close> and \<open>parse_object\<close> start at the first item, after the
  opening bracket and whitespace, when the container is not empty.
\<close>

fun scan_once :: "nat \<Rightarrow> string \<Rightarrow> (error + json \<times> string) option"
  and parse_array :: "nat \<Rightarrow> string \<Rightarrow> json list \<Rightarrow> (error + json \<times> string) option"
  and parse_object :: "nat \<Rightarrow> string \<Rightarrow> (nat list \<times> json) list \<Rightarrow> (error + json \<times> string) option"
where
  "scan_once 0 s = None"
| "scan_once (Suc n) s =
     (case s of
        [] \<Rightarrow> Some (Inl JSONDecodeError)
      | c # r \<Rightarrow>
          (if c = CHR 0x22 then Some (map_sum id (\<lambda>(cs, t). (JString cs, t)) (scanstring r))
           else if c = CHR ''{'' then
             (case skip_ws r of
                [] \<Rightarrow> Some (Inl JSONDecodeError)
              | d # t \<Rightarrow> (if d = CHR ''}'' then Some (Inr (JObject [], t)) else parse_object n (d # t) []))
           else if c = CHR ''['' then
             (case skip_ws r of
                [] \<Rightarrow> Some (Inl JSONDecodeError)
              | d # t \<Rightarrow> (if d = CHR '']'' then Some (Inr (JArray [], t)) else parse_array n (d # t) []))
           else if take 4 s = ''null'' then Some (Inr (JNull, drop 4 s))
           else if take 4 s = ''true'' then Some (Inr (JBool True, drop 4 s))
           else if take 5 s = ''false'' then Some (Inr (JBool False, drop 5 s))
           else if take 3 s = ''NaN'' then Some (Inr (JNaN, drop 3 s))
           else if take 8 s = ''Infinity'' then Some (Inr (JInfinity False, drop 8 s))
           else if take 9 s = ''-Infinity'' then Some (Inr (JInfinity True, drop 9 s))
           else (case match_number s of
                   None \<Rightarrow> Some (Inl JSONDecodeError)
                 | Some vt \<Rightarrow> Some (Inr vt))))"
| "parse_array 0 s acc = None"
| "parse_array (Suc n) s acc =
     (case scan_once n s of
        None \<Rightarrow> None
      | Some (Inl e) \<Rightarrow> Some (Inl e)
      | Some (Inr (v, r)) \<Rightarrow>
          (case skip_ws r of
             [] \<Rightarrow> Some (Inl JSONDecodeError)
           | c # t \<Rightarrow>
               (if c = CHR '']'' then Some (Inr (JArray (acc @ [v]), t))
                else if c = CHR '','' then parse_array n (skip_ws t) (acc @ [v])
                else Some (Inl JSONDecodeError))))"
| "parse_object 0 s acc = None"
| "parse_object (Suc n) s acc =
     (case s of
        [] \<Rightarrow> Some (Inl JSONDecodeError)
      | q # r \<Rightarrow>
          (if q \<noteq> CHR 0x22 then Some (Inl JSONDecodeError)
           else
             (case scanstring r of
                Inl e \<Rightarrow> Some (Inl e)
              | Inr (key, r1) \<Rightarrow>
                  (case skip_ws r1 of
                     [] \<Rightarrow> Some (Inl JSONDecodeError)
                   | c # r2 \<Rightarrow>
                       (if c \<noteq> CHR '':'' then Some (Inl JSONDecodeError)
                        else
                          (case scan_once n (skip_ws r2) of
                             None \<Rightarrow> None
                           | Some (Inl e) \<Rightarrow> Some (Inl e)
                           | Some (Inr (v, r3)) \<Rightarrow>
                               (case skip_ws r3 of
                                  [] \<Rightarrow> Some (Inl JSONDecodeError)
                                | d # t \<Rightarrow>
                                    (if d = CHR ''}'' then Some (Inr (JObject (dict_set key v acc), t))
                                     else if d = CHR '','' then parse_object n (skip_ws t) (dict_set key v acc)
                                     else Some (Inl JSONDecodeError)))))))))"

text \<open>
  \<^verbatim>\<open>json.loads\<close> on a string. A document of \<open>n\<close> characters never reaches the depth
  \<open>2 * n + 1\<close> (lemma \<open>scan_once_fuel\<close> below), so the last case is never taken.
\<close>

definition json_loads :: "string \<Rightarrow> error + json" where
  "json_loads s =
     (case scan_once (2 * length s + 1) (skip_ws s) of
        Some (Inr (v, r)) \<Rightarrow> (if skip_ws r = [] then Inr v else Inl JSONDecodeError)
      | Some (Inl e) \<Rightarrow> Inl e
      | None \<Rightarrow> Inl JSONDecodeError)"

text \<open>
  \<^verbatim>\<open>bool(x)\<close> for a decoded value. A float is false when it is zero: the float nearest
  to a decimal \<open>m \<sqdot> 10\<^sup>e\<close> is zero when \<open>m = 0\<close> and when \<open>|m| \<sqdot> 10\<^sup>e \<le> 2\<^sup>-\<^sup>1\<^sup>0\<^sup>7\<^sup>5\<close>, half
  the least positive float.
\<close>

definition float_nonzero :: "int \<Rightarrow> int \<Rightarrow> bool" where
  "float_nonzero m e = (m \<noteq> 0 \<and> (0 \<le> e \<or> 10 ^ nat (- e) < \<bar>m\<bar> * 2 ^ 1075))"

definition py_bool :: "json \<Rightarrow> bool" where
  "py_bool j =
     (case j of
        JNull \<Rightarrow> False
      | JBool b \<Rightarrow> b
      | JInt i \<Rightarrow> i \<noteq> 0
      | JFloat m e \<Rightarrow> float_nonzero m e
      | JNaN \<Rightarrow> True
      | JInfinity neg \<Rightarrow> True
      | JString cs \<Rightarrow> cs \<noteq> []
      | JArray xs \<Rightarrow> xs \<noteq> []
      | JObject kvs \<Rightarrow> kvs \<noteq> [])"

text \<open>
  \<^verbatim>\<open>xml_bool\<close>: \<^verbatim>\<open>return bool(json.loads(str_val))\<close>; \<^verbatim>\<open>json.loads\<close> raises TypeError
  for an argument that is not a string.
\<close>

definition xml_bool :: "val \<Rightarrow> error + bool" where
  "xml_bool str_val =
     (case str_val of
        Single (NStr s) \<Rightarrow> map_sum id py_bool (json_loads s)
      | _ \<Rightarrow> Inl TypeError)"

text \<open>\<^verbatim>\<open>Pod.primary\<close>: \<^verbatim>\<open>return '@primary' in self and xml_bool(self['@primary'])\<close>.\<close>

definition Pod_primary :: "view \<Rightarrow> error + bool" where
  "Pod_primary self =
     (case map_of (items self) ''@primary'' of
        None \<Rightarrow> Inr False
      | Some v \<Rightarrow> xml_bool v)"

subsection \<open>Result\<close>

text \<open>\<^verbatim>\<open>Result.pods\<close>: \<^verbatim>\<open>return self.pod\<close>.\<close>

definition Result_pods :: "'f builtins \<Rightarrow> view \<Rightarrow> error + 'f attr" where
  "Result_pods B self = property B self ''pods'' (getattr B self ''pod'')"

text \<open>
  \<^verbatim>\<open>self.get(key)\<close>, which is \<^verbatim>\<open>None\<close> for a missing key.
\<close>

definition dict_get :: "dict \<Rightarrow> string \<Rightarrow> val" where
  "dict_get d k = (case map_of d k of None \<Rightarrow> Single NNone | Some v \<Rightarrow> v)"

text \<open>
  \<^verbatim>\<open>Result.assumptions\<close>: \<^verbatim>\<open>return Assumption.from_doc(self.get('assumptions'))\<close>, and
  \<^verbatim>\<open>Result.warnings\<close> likewise with \<^verbatim>\<open>Warning\<close>. Neither getter can raise.
\<close>

definition Result_assumptions :: "'f builtins \<Rightarrow> view \<Rightarrow> error + 'f attr" where
  "Result_assumptions B self = Inr (Iter (from_doc B Assumption (dict_get (items self) ''assumptions'')))"

definition Result_warnings :: "'f builtins \<Rightarrow> view \<Rightarrow> error + 'f attr" where
  "Result_warnings B self = Inr (Iter (from_doc B Warning (dict_get (items self) ''warnings'')))"

text \<open>
  \<^verbatim>\<open>itertools.chain(a, b, c)\<close>: the items of each argument in turn; an argument is
  iterated only when the chain reaches it, and one that is not iterable raises there.
\<close>

fun chain :: "'f attr list \<Rightarrow> (error + elem) list" where
  "chain [] = []"
| "chain (a # as) =
     (case iterate a of
        Inl e \<Rightarrow> [Inl e]
      | Inr xs \<Rightarrow> xs @ chain as)"

text \<open>
  \<^verbatim>\<open>Result.info\<close>:
  \<^verbatim>\<open>return itertools.chain(self.pods, self.assumptions, self.warnings)\<close>.
\<close>

definition Result_info :: "'f builtins \<Rightarrow> view \<Rightarrow> error + 'f attr" where
  "Result_info B self =
     property B self ''info''
       (case Result_pods B self of
          Inl e \<Rightarrow> Inl e
        | Inr pods \<Rightarrow>
            (case Result_assumptions B self of
               Inl e \<Rightarrow> Inl e
             | Inr assumptions \<Rightarrow>
                 (case Result_warnings B self of
                    Inl e \<Rightarrow> Inl e
                  | Inr warnings \<Rightarrow> Inr (Iter (chain [pods, assumptions, warnings])))))"

text \<open>
  \<^verbatim>\<open>Result.__iter__\<close>: \<^verbatim>\<open>return self.info\<close>. \<^verbatim>\<open>iter(result)\<close> accepts what
  \<^verbatim>\<open>__iter__\<close> returns only when it is an iterator, which a value of the document is
  not (TypeError).
\<close>

definition Result_iter :: "'f builtins \<Rightarrow> view \<Rightarrow> error + (error + elem) list" where
  "Result_iter B self =
     (case Result_info B self of
        Inl e \<Rightarrow> Inl e
      | Inr (Iter xs) \<Rightarrow> Inr xs
      | Inr other \<Rightarrow> Inl TypeError)"

text \<open>Running an iterator to its end and counting: \<^verbatim>\<open>sum(1 for _ in it)\<close>.\<close>

fun count :: "(error + 'a) list \<Rightarrow> error + nat" where
  "count [] = Inr 0"
| "count (Inl e # xs) = Inl e"
| "count (Inr x # xs) = (case count xs of Inl e \<Rightarrow> Inl e | Inr n \<Rightarrow> Inr (Suc n))"

text \<open>\<^verbatim>\<open>Result.__len__\<close>: \<^verbatim>\<open>return sum(1 for _ in self.info)\<close>.\<close>

definition Result_len :: "'f builtins \<Rightarrow> view \<Rightarrow> error + nat" where
  "Result_len B self =
     (case Result_info B self of
        Inl e \<Rightarrow> Inl e
      | Inr info \<Rightarrow>
          (case iterate info of
             Inl e \<Rightarrow> Inl e
           | Inr xs \<Rightarrow> count xs))"

text \<open>
  \<^verbatim>\<open>pod.primary\<close> for an item of \<^verbatim>\<open>self.pods\<close>: the property of a \<^verbatim>\<open>Pod\<close>; a bare
  element of the document has no such attribute.
\<close>

definition elem_primary :: "elem \<Rightarrow> error + bool" where
  "elem_primary e =
     (case e of
        Obj v \<Rightarrow> Pod_primary v
      | Node n \<Rightarrow> Inl (AttributeError ''primary''))"

text \<open>\<^verbatim>\<open>x == 'Result'\<close> for the value of an attribute.\<close>

definition is_Result_title :: "'f attr \<Rightarrow> bool" where
  "is_Result_title a = (case a of Raw (Single (NStr s)) \<Rightarrow> s = ''Result'' | _ \<Rightarrow> False)"

text \<open>
  The generator \<^verbatim>\<open>(pod for pod in pods if pod.primary or pod.title == 'Result')\<close> over
  the outcomes of the iterator of \<open>pods\<close>: an exception, of the iterator or of the
  condition, ends the generator.
\<close>

fun results_gen :: "'f builtins \<Rightarrow> (error + elem) list \<Rightarrow> (error + elem) list" where
  "results_gen B [] = []"
| "results_gen B (Inl e # xs) = [Inl e]"
| "results_gen B (Inr pod # xs) =
     (case elem_primary pod of
        Inl e \<Rightarrow> [Inl e]
      | Inr True \<Rightarrow> Inr pod # results_gen B xs
      | Inr False \<Rightarrow>
          (case elem_getattr B pod ''title'' of
             Inl e \<Rightarrow> [Inl e]
           | Inr t \<Rightarrow> (if is_Result_title t then Inr pod # results_gen B xs else results_gen B xs)))"

text \<open>
  \<^verbatim>\<open>Result.results\<close>:
  \<^verbatim>\<open>return (pod for pod in self.pods if pod.primary or pod.title == 'Result')\<close>. The
  getter evaluates \<^verbatim>\<open>iter(self.pods)\<close>; the rest runs when the generator is consumed.
\<close>

definition Result_results :: "'f builtins \<Rightarrow> view \<Rightarrow> error + 'f attr" where
  "Result_results B self =
     property B self ''results''
       (case Result_pods B self of
          Inl e \<Rightarrow> Inl e
        | Inr pods \<Rightarrow>
            (case iterate pods of
               Inl e \<Rightarrow> Inl e
             | Inr xs \<Rightarrow> Inr (Iter (results_gen B xs))))"

text \<open>
  The selection as the specification words it, on the mapping of a pod: the primary
  flag is true (the attribute \<^verbatim>\<open>@primary\<close> is present and decodes to true), or the title
  is the string \<^verbatim>\<open>Result\<close>.
\<close>

definition is_result_pod :: "dict \<Rightarrow> bool" where
  "is_result_pod m =
     ((case map_of m ''@primary'' of Some v \<Rightarrow> xml_bool v = Inr True | None \<Rightarrow> False)
      \<or> lookup m ''title'' = Some (Single (NStr ''Result'')))"

text \<open>Whether a value can be the key of a mapping: \<^verbatim>\<open>None\<close> and strings are hashable.\<close>

definition hashable :: "'f attr \<Rightarrow> bool" where
  "hashable a =
     (case a of
        Raw (Single NNone) \<Rightarrow> True
      | Raw (Single (NStr s)) \<Rightarrow> True
      | Raw other \<Rightarrow> False
      | PInt i \<Rightarrow> True
      | PFloat x \<Rightarrow> True
      | Iter xs \<Rightarrow> True
      | Method n \<Rightarrow> True)"

text \<open>
  The mapping comprehension \<^verbatim>\<open>{pod.title: pod.plainText for pod in pods}\<close> over the
  outcomes of the iterator of \<open>pods\<close>, from the mapping built so far.
\<close>

fun details_comp :: "'f builtins \<Rightarrow> (error + elem) list \<Rightarrow> ('f attr \<times> 'f attr) list
    \<Rightarrow> error + ('f attr \<times> 'f attr) list" where
  "details_comp B [] acc = Inr acc"
| "details_comp B (Inl e # xs) acc = Inl e"
| "details_comp B (Inr pod # xs) acc =
     (case elem_getattr B pod ''title'' of
        Inl e \<Rightarrow> Inl e
      | Inr k \<Rightarrow>
          (case elem_getattr B pod ''plainText'' of
             Inl e \<Rightarrow> Inl e
           | Inr v \<Rightarrow>
               (if hashable k then details_comp B xs (dict_set k v acc) else Inl TypeError)))"

text \<open>
  \<^verbatim>\<open>Result.details\<close>: \<^verbatim>\<open>return {pod.title: pod.plainText for pod in self.pods}\<close>.
\<close>

definition Result_details :: "'f builtins \<Rightarrow> view \<Rightarrow> error + (('f attr \<times> 'f attr) list, 'f) propval" where
  "Result_details B self =
     property' B self ''details''
       (case Result_pods B self of
          Inl e \<Rightarrow> Inl e
        | Inr pods \<Rightarrow>
            (case iterate pods of
               Inl e \<Rightarrow> Inl e
             | Inr xs \<Rightarrow> details_comp B xs []))"

subsection \<open>Assumption\<close>





text \<open>A stand-in for the built-ins at concrete inputs that never reach them.\<close>

definition no_builtins :: "unit builtins" where
  "no_builtins = \<lparr>py_int = (\<lambda>v. Inl ValueError), py_float = (\<lambda>v. Inl ValueError), py_repr = (\<lambda>v. [])\<rparr>"

section \<open>Auxiliary facts\<close>

subsection \<open>The scanner consumes its input and never reaches its bound\<close>

lemma length_skip_ws: "length (skip_ws s) \<le> length s"
  by (simp add: skip_ws_def length_dropWhile_le)

lemma skip_ws_Cons_length: "skip_ws s = c # t \<Longrightarrow> length t < length s"
  using length_skip_ws [of s] by simp

lemma push_Inr: "push cp res = Inr (cs, t) \<Longrightarrow> \<exists>cs'. res = Inr (cs', t)"
  by (cases res) (auto simp: push_def)

lemma scanstring_shorter: "scanstring s = Inr (cs, r) \<Longrightarrow> length r < length s"
proof (induction s arbitrary: cs r rule: scanstring.induct)
  case 1
  then show ?case by simp
next
  case (2 c r0)
  show ?case
    using "2.prems" "2.IH"
    by (fastforce split: if_splits list.splits option.splits dest!: push_Inr)
qed

lemma match_integer_shorter: "match_integer s = Some (neg, ip, r) \<Longrightarrow> length r < length s"
  by (cases s) (auto simp: match_integer_def Let_def split: if_splits list.splits
      intro: le_less_trans [OF length_dropWhile_le])

lemma match_frac_shorter: "match_frac s = Some (fp, r) \<Longrightarrow> length r \<le> length s"
  by (auto simp: match_frac_def split: list.splits if_splits intro: le_trans [OF length_dropWhile_le])

lemma match_exp_shorter: "match_exp s = Some (ex, r) \<Longrightarrow> length r \<le> length s"
  by (cases s) (auto simp: match_exp_def Let_def split: list.splits if_splits
      intro: le_trans [OF length_dropWhile_le])

lemma match_number_shorter: "match_number s = Some (v, r) \<Longrightarrow> length r < length s"
  by (auto simp: match_number_def Let_def split: option.splits prod.splits
      dest!: match_integer_shorter match_frac_shorter match_exp_shorter)

lemma scan_shorter:
  "(\<forall>s v r. scan_once n s = Some (Inr (v, r)) \<longrightarrow> length r < length s) \<and>
   (\<forall>s acc v r. parse_array n s acc = Some (Inr (v, r)) \<longrightarrow> length r < length s) \<and>
   (\<forall>s acc v r. parse_object n s acc = Some (Inr (v, r)) \<longrightarrow> length r < length s)"
proof (induction n)
  case 0
  show ?case by simp
next
  case (Suc n)
  have ih_pa: "length r < length s" if "parse_array n s acc = Some (Inr (v, r))" for s acc v r
    using Suc that by blast
  have ih_po: "length r < length s" if "parse_object n s acc = Some (Inr (v, r))" for s acc v r
    using Suc that by blast
  have so: "length r < length s" if "scan_once (Suc n) s = Some (Inr (v, r))" for s v r
  proof (cases s)
    case Nil
    with that show ?thesis by simp
  next
    case (Cons c t)
    show ?thesis
      using that length_skip_ws [of t] unfolding Cons
      by (auto simp: map_sum_def split: if_splits list.splits option.splits sum.splits
          dest!: scanstring_shorter match_number_shorter ih_pa ih_po)
  qed
  have pa: "length r < length s" if "parse_array (Suc n) s acc = Some (Inr (v, r))" for s acc v r
  proof -
    from that obtain v1 r1 where 1: "scan_once n s = Some (Inr (v1, r1))"
      by (auto split: option.splits sum.splits)
    with Suc have 2: "length r1 < length s" by blast
    from that 1 obtain c t where 3: "skip_ws r1 = c # t"
      by (auto split: list.splits)
    have 4: "length t < length r1" using 3 by (rule skip_ws_Cons_length)
    show ?thesis
    proof (cases "c = CHR '']''")
      case True
      with that 1 3 have "r = t" by simp
      with 2 4 show ?thesis by simp
    next
      case False
      with that 1 3 have "parse_array n (skip_ws t) (acc @ [v1]) = Some (Inr (v, r))"
        by (simp split: if_splits)
      with Suc have "length r < length (skip_ws t)" by blast
      with 2 4 length_skip_ws [of t] show ?thesis by simp
    qed
  qed
  have po: "length r < length s" if "parse_object (Suc n) s acc = Some (Inr (v, r))" for s acc v r
  proof -
    from that obtain q s1 where s: "s = q # s1" and q: "q = CHR 0x22"
      by (auto split: list.splits if_splits)
    from that s q obtain key r1 where 1: "scanstring s1 = Inr (key, r1)"
      by (auto split: sum.splits)
    then have l1: "length r1 < length s1" by (rule scanstring_shorter)
    from that s q 1 obtain c r2 where 2: "skip_ws r1 = c # r2" and c: "c = CHR '':''"
      by (auto split: list.splits if_splits)
    have l2: "length r2 < length r1" using 2 by (rule skip_ws_Cons_length)
    from that s q 1 2 c obtain v1 r3 where 3: "scan_once n (skip_ws r2) = Some (Inr (v1, r3))"
      by (auto split: option.splits sum.splits)
    with Suc have l3: "length r3 < length (skip_ws r2)" by blast
    from that s q 1 2 c 3 obtain d t where 4: "skip_ws r3 = d # t"
      by (auto split: list.splits)
    have l4: "length t < length r3" using 4 by (rule skip_ws_Cons_length)
    show ?thesis
    proof (cases "d = CHR ''}''")
      case True
      with that s q 1 2 c 3 4 have "r = t" by simp
      with s l1 l2 l3 l4 length_skip_ws [of r2] show ?thesis by simp
    next
      case False
      with that s q 1 2 c 3 4 have "parse_object n (skip_ws t) (dict_set key v1 acc) = Some (Inr (v, r))"
        by (simp split: if_splits)
      with Suc have "length r < length (skip_ws t)" by blast
      with s l1 l2 l3 l4 length_skip_ws [of r2] length_skip_ws [of t] show ?thesis by simp
    qed
  qed
  from so pa po show ?case by blast
qed

lemma scan_once_shorter: "scan_once n s = Some (Inr (v, r)) \<Longrightarrow> length r < length s"
  using scan_shorter [of n] by blast

lemma scan_fuel:
  "(\<forall>s. 2 * length s < n \<longrightarrow> scan_once n s \<noteq> None) \<and>
   (\<forall>s acc. 2 * length s + 1 < n \<longrightarrow> parse_array n s acc \<noteq> None) \<and>
   (\<forall>s acc. 2 * length s + 1 < n \<longrightarrow> parse_object n s acc \<noteq> None)"
proof (induction n)
  case 0
  show ?case by simp
next
  case (Suc n)
  have ih_so: "scan_once n s \<noteq> None" if "2 * length s < n" for s
    using Suc that by blast
  have ih_pa: "parse_array n s acc \<noteq> None" if "2 * length s + 1 < n" for s acc
    using Suc that by blast
  have ih_po: "parse_object n s acc \<noteq> None" if "2 * length s + 1 < n" for s acc
    using Suc that by blast
  have so: "scan_once (Suc n) s \<noteq> None" if "2 * length s < Suc n" for s
  proof (cases s)
    case Nil
    then show ?thesis by simp
  next
    case (Cons c t)
    have "parse_object n (d # u) [] \<noteq> None" "parse_array n (d # u) [] \<noteq> None"
      if "skip_ws t = d # u" for d u
    proof -
      have "2 * length (d # u) + 1 < n"
        using that \<open>2 * length s < Suc n\<close> length_skip_ws [of t] Cons by simp
      then show "parse_object n (d # u) [] \<noteq> None" "parse_array n (d # u) [] \<noteq> None"
        by (rule ih_po, rule ih_pa)
    qed
    then show ?thesis
      unfolding Cons by (auto split: list.splits option.splits)
  qed
  have pa: "parse_array (Suc n) s acc \<noteq> None" if "2 * length s + 1 < Suc n" for s acc
  proof (cases "scan_once n s")
    case None
    with ih_so [of s] that show ?thesis by simp
  next
    case (Some res)
    show ?thesis
    proof (cases res)
      case (Inl e)
      with Some show ?thesis by simp
    next
      case (Inr vr)
      obtain v r where vr: "vr = (v, r)" by (cases vr)
      have l: "length r < length s" using Some Inr vr scan_once_shorter by blast
      have "parse_array n (skip_ws t) (acc @ [v]) \<noteq> None" if "skip_ws r = c # t" for c t
      proof (rule ih_pa)
        show "2 * length (skip_ws t) + 1 < n"
          using skip_ws_Cons_length [OF that] l length_skip_ws [of t] \<open>2 * length s + 1 < Suc n\<close>
          by simp
      qed
      then show ?thesis
        using Some Inr vr by (auto split: list.splits)
    qed
  qed
  have po: "parse_object (Suc n) s acc \<noteq> None" if "2 * length s + 1 < Suc n" for s acc
  proof (cases s)
    case Nil
    then show ?thesis by simp
  next
    case (Cons q s1)
    have A: "scan_once n (skip_ws r2) \<noteq> None"
      if "scanstring s1 = Inr (key, r1)" "skip_ws r1 = c # r2" for key r1 c r2
    proof (rule ih_so)
      show "2 * length (skip_ws r2) < n"
        using scanstring_shorter [OF that(1)] skip_ws_Cons_length [OF that(2)]
          length_skip_ws [of r2] \<open>2 * length s + 1 < Suc n\<close> Cons
        by simp
    qed
    have B: "parse_object n (skip_ws t) acc' \<noteq> None"
      if "scanstring s1 = Inr (key, r1)" "skip_ws r1 = c # r2"
         "scan_once n (skip_ws r2) = Some (Inr (v, r3))" "skip_ws r3 = d # t" for key r1 c r2 v r3 d t acc'
    proof (rule ih_po)
      show "2 * length (skip_ws t) + 1 < n"
        using scanstring_shorter [OF that(1)] skip_ws_Cons_length [OF that(2)]
          scan_once_shorter [OF that(3)] skip_ws_Cons_length [OF that(4)]
          length_skip_ws [of r2] length_skip_ws [of t] \<open>2 * length s + 1 < Suc n\<close> Cons
        by simp
    qed
    show ?thesis
    proof (cases "scanstring s1")
      case (Inl e)
      then show ?thesis unfolding Cons by simp
    next
      case (Inr kr)
      obtain key r1 where kr: "kr = (key, r1)" by (cases kr)
      show ?thesis
      proof (cases "skip_ws r1")
        case Nil
        with Inr kr show ?thesis unfolding Cons by simp
      next
        case c: (Cons c r2)
        from A [of key r1 c r2] Inr kr c obtain res where res: "scan_once n (skip_ws r2) = Some res"
          by auto
        show ?thesis
        proof (cases res)
          case e: (Inl e)
          with Inr kr c res show ?thesis unfolding Cons by simp
        next
          case vr: (Inr vr)
          obtain v r3 where vr': "vr = (v, r3)" by (cases vr)
          show ?thesis
          proof (cases "skip_ws r3")
            case Nil
            with Inr kr c res vr vr' show ?thesis unfolding Cons by simp
          next
            case d: (Cons d t)
            from B [of key r1 c r2 v r3 d t] Inr kr c res vr vr' d
            have "parse_object n (skip_ws t) (dict_set key v acc) \<noteq> None" by simp
            with Inr kr c res vr vr' d show ?thesis unfolding Cons by simp
          qed
        qed
      qed
    qed
  qed
  from so pa po show ?case by blast
qed

lemma scan_once_fuel: "2 * length s < n \<Longrightarrow> scan_once n s \<noteq> None"
  using scan_fuel [of n] by blast

lemma json_loads_total: "scan_once (2 * length s + 1) (skip_ws s) \<noteq> None"
  using length_skip_ws [of s] by (intro scan_once_fuel) simp

subsection \<open>The decoder raises decoding errors only\<close>

lemma push_Inl_iff: "(push cp res = Inl e) = (res = Inl e)"
  by (cases res) (auto simp: push_def)

lemma scanstring_error: "scanstring s = Inl e \<Longrightarrow> e = JSONDecodeError"
proof (induction "length s" arbitrary: s rule: less_induct)
  case less
  have IH: "e = JSONDecodeError" if "scanstring t = Inl e" "length t < length s" for t
    using less.hyps [OF that(2) that(1)] .
  show ?case
  proof (cases s)
    case Nil
    with less.prems show ?thesis by simp
  next
    case (Cons c r)
    have r: "e = JSONDecodeError" if "scanstring (drop k r) = Inl e" for k
      using that IH [of "drop k r"] Cons by simp
    have r': "e = JSONDecodeError" if "scanstring (drop k (tl r)) = Inl e" for k
      using that IH [of "drop k (tl r)"] Cons by simp
    have r0: "e = JSONDecodeError" if "scanstring r = Inl e"
      using r [of 0] that by simp
    have r1: "e = JSONDecodeError" if "scanstring (tl r) = Inl e"
      using r' [of 0] that by simp
    show ?thesis
    proof (cases "c = CHR 0x5C")
      case False
      with less.prems Cons r0 show ?thesis
        by (auto simp: push_Inl_iff split: if_splits)
    next
      case True
      show ?thesis
      proof (cases r)
        case Nil
        with less.prems Cons True show ?thesis by simp
      next
        case c2: (Cons e2 r2)
        have tl: "tl r = r2" using c2 by simp
        show ?thesis
        proof (cases "e2 = CHR ''u''")
          case False
          with less.prems Cons True c2 r1 tl show ?thesis
            by (auto simp: push_Inl_iff split: option.splits)
        next
          case u: True
          from less.prems Cons True c2 u
          have "e = JSONDecodeError \<or> (\<exists>k. scanstring (drop k r2) = Inl e)"
            by (auto simp: push_Inl_iff split: option.splits if_splits)
          with r' tl show ?thesis by auto
        qed
      qed
    qed
  qed
qed


lemma scan_error:
  "(\<forall>s e. scan_once n s = Some (Inl e) \<longrightarrow> e = JSONDecodeError) \<and>
   (\<forall>s acc e. parse_array n s acc = Some (Inl e) \<longrightarrow> e = JSONDecodeError) \<and>
   (\<forall>s acc e. parse_object n s acc = Some (Inl e) \<longrightarrow> e = JSONDecodeError)"
proof (induction n)
  case 0
  show ?case by simp
next
  case (Suc n)
  have ih_so: "e = JSONDecodeError" if "scan_once n s = Some (Inl e)" for s e
    using Suc that by blast
  have ih_pa: "e = JSONDecodeError" if "parse_array n s acc = Some (Inl e)" for s acc e
    using Suc that by blast
  have ih_po: "e = JSONDecodeError" if "parse_object n s acc = Some (Inl e)" for s acc e
    using Suc that by blast
  have so: "e = JSONDecodeError" if "scan_once (Suc n) s = Some (Inl e)" for s e
  proof (cases s)
    case Nil
    with that show ?thesis by simp
  next
    case (Cons c t)
    from that have
      "e = JSONDecodeError \<or> scanstring t = Inl e
       \<or> (\<exists>u acc. parse_object n u acc = Some (Inl e))
       \<or> (\<exists>u acc. parse_array n u acc = Some (Inl e))"
      unfolding Cons
      by (auto simp: map_sum_def split: if_splits list.splits option.splits sum.splits)
    then show ?thesis
      using scanstring_error ih_pa ih_po by blast
  qed
  have pa: "e = JSONDecodeError" if "parse_array (Suc n) s acc = Some (Inl e)" for s acc e
  proof -
    from that have
      "e = JSONDecodeError \<or> scan_once n s = Some (Inl e)
       \<or> (\<exists>u acc'. parse_array n u acc' = Some (Inl e))"
      by (auto split: option.splits sum.splits list.splits if_splits)
    then show ?thesis using ih_so ih_pa by blast
  qed
  have po: "e = JSONDecodeError" if "parse_object (Suc n) s acc = Some (Inl e)" for s acc e
  proof (cases s)
    case Nil
    with that show ?thesis by simp
  next
    case (Cons q s1)
    show ?thesis
    proof (cases "q = CHR 0x22")
      case False
      with that Cons show ?thesis by simp
    next
      case q: True
      show ?thesis
      proof (cases "scanstring s1")
        case (Inl x)
        with that Cons q have "x = e" by simp
        with Inl scanstring_error show ?thesis by blast
      next
        case (Inr kr)
        obtain key r1 where kr: "kr = (key, r1)" by (cases kr)
        show ?thesis
        proof (cases "skip_ws r1")
          case Nil
          with that Cons q Inr kr show ?thesis by simp
        next
          case c: (Cons c r2)
          show ?thesis
          proof (cases "c = CHR '':''")
            case False
            with that Cons q Inr kr c show ?thesis by simp
          next
            case colon: True
            show ?thesis
            proof (cases "scan_once n (skip_ws r2)")
              case None
              with that Cons q Inr kr c colon show ?thesis by simp
            next
              case (Some res)
              show ?thesis
              proof (cases res)
                case x: (Inl x)
                with that Cons q Inr kr c colon Some have "x = e" by simp
                with x Some ih_so show ?thesis by blast
              next
                case vr: (Inr vr)
                obtain v r3 where vr': "vr = (v, r3)" by (cases vr)
                show ?thesis
                proof (cases "skip_ws r3")
                  case Nil
                  with that Cons q Inr kr c colon Some vr vr' show ?thesis by simp
                next
                  case d: (Cons d t)
                  from that Cons q Inr kr c colon Some vr vr' d
                  have "e = JSONDecodeError
                        \<or> parse_object n (skip_ws t) (dict_set key v acc) = Some (Inl e)"
                    by (simp split: if_splits)
                  with ih_po show ?thesis by blast
                qed
              qed
            qed
          qed
        qed
      qed
    qed
  qed
  from so pa po show ?case by blast
qed

lemma scan_once_error: "scan_once n s = Some (Inl e) \<Longrightarrow> e = JSONDecodeError"
  using scan_error [of n] by blast

lemma json_loads_error:
  assumes "json_loads s = Inl e"
  shows "e = JSONDecodeError"
proof (cases "scan_once (2 * length s + 1) (skip_ws s)")
  case None
  then show ?thesis using assms by (simp add: json_loads_def)
next
  case (Some res)
  show ?thesis
  proof (cases res)
    case (Inl x)
    with Some assms have "x = e" by (simp add: json_loads_def)
    with Inl Some scan_once_error show ?thesis by blast
  next
    case (Inr vr)
    with Some assms show ?thesis by (simp add: json_loads_def split: prod.splits if_splits)
  qed
qed

subsection \<open>Lookup, wrapping and counting\<close>

lemma getattr_lookup:
  "getattr B self name =
     (case lookup (items self) name of
        Some v \<Rightarrow> conversion B (cls_of self) name v
      | None \<Rightarrow> Inl (AttributeError name))"
  by (simp add: getattr_def lookup_def Let_def split: option.splits)

lemma conversion_simps:
  "conversion B Result ''pod'' = conv_from_doc B Pod"
  "conversion B Pod ''subpod'' = conv_from_doc B Subpod"
  "conversion B Subpod ''img'' = conv_from_doc B Image"
  "conversion B Result ''pods'' v = Inr (Raw v)"
  "conversion B Result ''info'' v = Inr (Raw v)"
  "conversion B Result ''results'' v = Inr (Raw v)"
  "conversion B Result ''details'' v = Inr (Raw v)"
  "conversion B Pod ''subpods'' v = Inr (Raw v)"
  "conversion B Pod ''text'' v = Inr (Raw v)"
  "conversion B Pod ''texts'' v = Inr (Raw v)"
  "conversion B Pod ''title'' v = Inr (Raw v)"
  "conversion B Pod ''plainText'' v = Inr (Raw v)"
  "conversion B Subpod ''plaintext'' v = Inr (Raw v)"
  "conversion B Assumption name v = Inr (Raw v)"
  by (simp_all add: conversion_def attr_types_def)

lemma new_plain: "\<not> is_error_handler c \<Longrightarrow> new B c (NDict d) = Inr (View c d)"
  by (simp add: new_def dict_init_def)

lemma new_no_error: "map_of d ''error'' = None \<Longrightarrow> new B c (NDict d) = Inr (View c d)"
  by (simp add: new_def dict_init_def handle_error_def)



lemma from_doc_dict: "from_doc B c (Single (NDict m)) = [map_sum id Obj (new B c (NDict m))]"
  by (simp add: from_doc_def always_iterable_def)


lemma Result_pods_present:
  "lookup d ''pod'' = Some v \<Longrightarrow> Result_pods B (View Result d) = Inr (Iter (from_doc B Pod v))"
  by (simp add: Result_pods_def property_def getattr_lookup conversion_simps conv_from_doc_def)

lemma Result_pods_absent:
  "lookup d ''pod'' = None \<Longrightarrow> lookup d ''pods'' = None
    \<Longrightarrow> Result_pods B (View Result d) = Inl (AttributeError ''pods'')"
  by (simp add: Result_pods_def property_def getattr_lookup)


lemma count_all_Inr: "\<forall>x\<in>set xs. \<exists>y. x = Inr y \<Longrightarrow> count xs = Inr (length xs)"
proof (induction xs)
  case Nil
  show ?case by simp
next
  case (Cons x xs)
  then obtain y where "x = Inr y" by auto
  with Cons show ?case by simp
qed

lemma from_doc_all_Inr:
  assumes "\<forall>n\<in>set (always_iterable v). \<exists>m. n = NDict m \<and> (is_error_handler c \<longrightarrow> map_of m ''error'' = None)"
  shows "\<forall>x\<in>set (from_doc B c v). \<exists>y. x = Inr y"
proof
  fix x assume "x \<in> set (from_doc B c v)"
  then obtain n where n: "n \<in> set (always_iterable v)" and x: "x = map_sum id Obj (new B c n)"
    by (auto simp: from_doc_def)
  from assms n obtain m where m: "n = NDict m" "is_error_handler c \<longrightarrow> map_of m ''error'' = None"
    by blast
  have "new B c (NDict m) = Inr (View c m)"
    using m(2) by (cases "is_error_handler c") (simp_all add: new_plain new_no_error)
  with x m(1) show "\<exists>y. x = Inr y" by simp
qed

lemma Result_info_present:
  "lookup d ''pod'' = Some pv \<Longrightarrow>
   Result_info B (View Result d) =
     Inr (Iter (from_doc B Pod pv @ from_doc B Assumption (dict_get d ''assumptions'')
                 @ from_doc B Warning (dict_get d ''warnings'')))"
  by (simp add: Result_info_def Result_pods_present Result_assumptions_def Result_warnings_def
      property_def iterate_def)

lemma is_Result_title_Raw: "is_Result_title (Raw t) = (t = Single (NStr ''Result''))"
proof (cases t)
  case (Single n)
  then show ?thesis by (cases n) (simp_all add: is_Result_title_def)
next
  case (Many ns)
  then show ?thesis by (simp add: is_Result_title_def)
qed

lemma results_gen_filter:
  assumes "\<forall>m\<in>set ms. \<exists>b. Pod_primary (View Pod m) = Inr b \<and> (\<not> b \<longrightarrow> lookup m ''title'' \<noteq> None)"
  shows "results_gen B (map (\<lambda>m. Inr (Obj (View Pod m))) ms)
         = map (\<lambda>m. Inr (Obj (View Pod m))) (filter is_result_pod ms)"
  using assms
proof (induction ms)
  case Nil
  show ?case by simp
next
  case (Cons m ms)
  from Cons.prems have rest:
    "\<forall>m\<in>set ms. \<exists>b. Pod_primary (View Pod m) = Inr b \<and> (\<not> b \<longrightarrow> lookup m ''title'' \<noteq> None)"
    by simp
  note IH = Cons.IH [OF rest]
  from Cons.prems obtain b where b: "Pod_primary (View Pod m) = Inr b"
    and t: "\<not> b \<longrightarrow> lookup m ''title'' \<noteq> None"
    by auto
  show ?case
  proof (cases b)
    case True
    with b have sel: "is_result_pod m"
      by (auto simp: is_result_pod_def Pod_primary_def split: option.splits)
    from True b sel IH show ?thesis by (simp add: elem_primary_def)
  next
    case False
    with t obtain tv where tv: "lookup m ''title'' = Some tv" by auto
    have title: "getattr B (View Pod m) ''title'' = Inr (Raw tv)"
      using tv by (simp add: getattr_lookup conversion_simps)
    have sel: "is_result_pod m = (tv = Single (NStr ''Result''))"
      using False b tv
      by (auto simp: is_result_pod_def Pod_primary_def split: option.splits)
    from False b title sel IH show ?thesis
      by (simp add: elem_primary_def elem_getattr_def is_Result_title_Raw)
  qed
qed

subsection \<open>Searching a string\<close>



section \<open>Service errors at construction\<close>

text \<open>
  C2. A mapping that contains the plain key \<^verbatim>\<open>'error'\<close>, holding a mapping with
  \<^verbatim>\<open>'code'\<close> and \<^verbatim>\<open>'msg'\<close> children, cannot be constructed into a \<^verbatim>\<open>Pod\<close> or a
  \<^verbatim>\<open>Result\<close>: construction raises an exception whose message is \<^verbatim>\<open>Error \<close>, the code,
  \<^verbatim>\<open>: \<close> and the message (a string child is rendered as itself), whatever else the
  mapping holds. A mapping without that key is constructed.
\<close>

theorem error_key_fails_construction:
  "(map_of d ''error'' = Some (Single (NDict e)) \<and> map_of e ''code'' = Some c \<and> map_of e ''msg'' = Some m
      \<longrightarrow> new B Pod (NDict d) = Inl (Exception (''Error '' @ format_field B c @ '': '' @ format_field B m))
        \<and> Result_init B (NDict d) = Inl (Exception (''Error '' @ format_field B c @ '': '' @ format_field B m)))
   \<and> format_field B (Single (NStr s)) = s
   \<and> (map_of d ''error'' = None
      \<longrightarrow> new B Pod (NDict d) = Inr (View Pod d) \<and> Result_init B (NDict d) = Inr (View Result d))"
  by (simp add: new_def Result_init_def dict_init_def handle_error_def is_error_handler_def getitem_def
      format_field_def)

theorem error_key_fails_construction_witness:
  "new no_builtins Pod
     (NDict [(''@title'', Single (NStr ''Input'')),
             (''error'', Single (NDict [(''code'', Single (NStr ''1'')), (''msg'', Single (NStr ''Invalid appid''))]))])
     = Inl (Exception ''Error 1: Invalid appid'')
   \<and> Result_init no_builtins
     (NDict [(''@title'', Single (NStr ''Input'')),
             (''error'', Single (NDict [(''code'', Single (NStr ''1'')), (''msg'', Single (NStr ''Invalid appid''))]))])
     = Inl (Exception ''Error 1: Invalid appid'')
   \<and> new no_builtins Pod (NDict [(''@title'', Single (NStr ''Input''))])
     = Inr (View Pod [(''@title'', Single (NStr ''Input''))])"
  using error_key_fails_construction
    [of "[(''@title'', Single (NStr ''Input'')),
          (''error'', Single (NDict [(''code'', Single (NStr ''1'')), (''msg'', Single (NStr ''Invalid appid''))]))]"
        "[(''code'', Single (NStr ''1'')), (''msg'', Single (NStr ''Invalid appid''))]"
        "Single (NStr ''1'')" "Single (NStr ''Invalid appid'')" no_builtins]
    error_key_fails_construction
    [of "[(''@title'', Single (NStr ''Input''))]" _ _ _ no_builtins]
  by (simp add: format_field_def)

text \<open>
  C10. The error check reads the plain key \<^verbatim>\<open>'error'\<close> only: a mapping that carries the
  attribute key \<^verbatim>\<open>'@error'\<close> (whatever its value) and no plain \<^verbatim>\<open>'error'\<close> key is
  constructed into a \<^verbatim>\<open>Pod\<close> and into a \<^verbatim>\<open>Result\<close> without raising.
\<close>

theorem attribute_error_key_is_ignored:
  assumes "map_of d ''@error'' = Some v" and "map_of d ''error'' = None"
  shows "new B Pod (NDict d) = Inr (View Pod d) \<and> Result_init B (NDict d) = Inr (View Result d)"
  using assms by (simp add: new_def Result_init_def dict_init_def handle_error_def is_error_handler_def)

theorem attribute_error_key_is_ignored_witness:
  "new no_builtins Pod (NDict [(''@title'', Single (NStr ''Input'')), (''@error'', Single (NStr ''true''))])
     = Inr (View Pod [(''@title'', Single (NStr ''Input'')), (''@error'', Single (NStr ''true''))])
   \<and> Result_init no_builtins (NDict [(''@title'', Single (NStr ''Input'')), (''@error'', Single (NStr ''true''))])
     = Inr (View Result [(''@title'', Single (NStr ''Input'')), (''@error'', Single (NStr ''true''))])"
  using attribute_error_key_is_ignored
    [of "[(''@title'', Single (NStr ''Input'')), (''@error'', Single (NStr ''true''))]"
        "Single (NStr ''true'')" no_builtins]
  by simp

section \<open>Attribute access\<close>

text \<open>
  C7. \<^verbatim>\<open>__getattr__\<close> takes the value under the plain key when that key is present,
  otherwise the value under the \<^verbatim>\<open>@\<close>-prefixed key, and applies to it the conversion
  registered for the name in the class (the identity when none is registered); when
  neither key is present it raises AttributeError with the name. An empty string under
  a key is a value like any other, not a missing attribute.
\<close>

theorem getattr_plain_then_attribute:
  "getattr B self name =
     (case lookup (items self) name of
        Some v \<Rightarrow> conversion B (cls_of self) name v
      | None \<Rightarrow> Inl (AttributeError name))
   \<and> lookup (items self) name =
       (if map_of (items self) name \<noteq> None then map_of (items self) name
        else map_of (items self) (CHR ''@'' # name))
   \<and> conversion B (cls_of self) name =
       (case attr_types B (cls_of self) name of Some f \<Rightarrow> f | None \<Rightarrow> (\<lambda>x. Inr (Raw x)))
   \<and> (\<forall>f. attr_types B (cls_of self) name = Some f \<longrightarrow> lookup (items self) name = Some v
         \<longrightarrow> getattr B self name = f v)
   \<and> (attr_types B (cls_of self) name = None \<longrightarrow> lookup (items self) name = Some v
         \<longrightarrow> getattr B self name = Inr (Raw v))
   \<and> (attr_types B (cls_of self) name = None \<longrightarrow> lookup (items self) name = Some (Single (NStr ''''))
         \<longrightarrow> getattr B self name = Inr (Raw (Single (NStr ''''))))
   \<and> (lookup (items self) name = None \<longrightarrow> getattr B self name = Inl (AttributeError name))"
  by (auto simp: getattr_lookup lookup_def conversion_def split: option.splits)

theorem getattr_plain_then_attribute_witness:
  "getattr no_builtins (View Pod [(''@title'', Single (NStr ''Input'')), (''title'', Single (NStr ''''))]) ''title''
     = Inr (Raw (Single (NStr '''')))
   \<and> getattr no_builtins (View Pod [(''@title'', Single (NStr ''Input''))]) ''title''
     = Inr (Raw (Single (NStr ''Input'')))
   \<and> getattr no_builtins (View Pod [(''@title'', Single (NStr ''Input''))]) ''scanner''
     = Inl (AttributeError ''scanner'')
   \<and> getattr no_builtins (View Pod [(''subpod'', Single (NDict [(''plaintext'', Single (NStr ''pi''))]))]) ''subpod''
     = Inr (Iter [Inr (Obj (View Subpod [(''plaintext'', Single (NStr ''pi''))]))])"
  using getattr_plain_then_attribute
      [of no_builtins "View Pod [(''@title'', Single (NStr ''Input'')), (''title'', Single (NStr ''''))]" "''title''"]
    getattr_plain_then_attribute
      [of no_builtins "View Pod [(''@title'', Single (NStr ''Input''))]" "''title''"]
    getattr_plain_then_attribute
      [of no_builtins "View Pod [(''@title'', Single (NStr ''Input''))]" "''scanner''"]
    getattr_plain_then_attribute
      [of no_builtins "View Pod [(''subpod'', Single (NDict [(''plaintext'', Single (NStr ''pi''))]))]"
          "''subpod''"]
  by (simp add: lookup_def conversion_def attr_types_def conv_from_doc_def from_doc_dict new_plain
      is_error_handler_def)

section \<open>Children of a view\<close>




section \<open>The items of a result\<close>

text \<open>
  C4. The claim fails for a response without pods and without an error block: the
  \<^verbatim>\<open>Result\<close> is constructed, but iterating it and taking its length raise
  AttributeError.
\<close>

theorem no_pods_counterexample:
  "Result_init no_builtins (NDict [(''@success'', Single (NStr ''false'')), (''@numpods'', Single (NStr ''0''))])
     = Inr (View Result [(''@success'', Single (NStr ''false'')), (''@numpods'', Single (NStr ''0''))])
   \<and> Result_iter no_builtins (View Result [(''@success'', Single (NStr ''false'')), (''@numpods'', Single (NStr ''0''))])
     = Inl (AttributeError ''info'')
   \<and> Result_len no_builtins (View Result [(''@success'', Single (NStr ''false'')), (''@numpods'', Single (NStr ''0''))])
     = Inl (AttributeError ''info'')"
  by (simp add: Result_init_def new_no_error Result_iter_def Result_len_def Result_info_def
      Result_pods_absent lookup_def property_def getattr_lookup)

text \<open>
  C4, amended. For a response that has a \<^verbatim>\<open>pod\<close> field and no error block (at the top
  or in a pod), and whose pods, assumptions and warnings are mappings, constructing the
  \<^verbatim>\<open>Result\<close> succeeds, iterating it produces its pods, then its assumptions, then its
  warnings, and its length is the sum of their numbers.
\<close>

theorem info_is_pods_assumptions_warnings:
  assumes "map_of d ''error'' = None"
    and "lookup d ''pod'' = Some pv"
    and "\<forall>n\<in>set (always_iterable pv). \<exists>m. n = NDict m \<and> map_of m ''error'' = None"
    and "\<forall>n\<in>set (always_iterable (dict_get d ''assumptions'')). \<exists>m. n = NDict m"
    and "\<forall>n\<in>set (always_iterable (dict_get d ''warnings'')). \<exists>m. n = NDict m"
  shows "Result_init B (NDict d) = Inr (View Result d)
    \<and> Result_pods B (View Result d) = Inr (Iter (from_doc B Pod pv))
    \<and> Result_assumptions B (View Result d) = Inr (Iter (from_doc B Assumption (dict_get d ''assumptions'')))
    \<and> Result_warnings B (View Result d) = Inr (Iter (from_doc B Warning (dict_get d ''warnings'')))
    \<and> Result_iter B (View Result d)
        = Inr (from_doc B Pod pv @ from_doc B Assumption (dict_get d ''assumptions'')
                @ from_doc B Warning (dict_get d ''warnings''))
    \<and> count (from_doc B Pod pv) = Inr (length (always_iterable pv))
    \<and> count (from_doc B Assumption (dict_get d ''assumptions''))
        = Inr (length (always_iterable (dict_get d ''assumptions'')))
    \<and> count (from_doc B Warning (dict_get d ''warnings''))
        = Inr (length (always_iterable (dict_get d ''warnings'')))
    \<and> Result_len B (View Result d)
        = Inr (length (always_iterable pv) + length (always_iterable (dict_get d ''assumptions''))
                + length (always_iterable (dict_get d ''warnings'')))"
proof -
  let ?P = "from_doc B Pod pv"
  let ?A = "from_doc B Assumption (dict_get d ''assumptions'')"
  let ?W = "from_doc B Warning (dict_get d ''warnings'')"
  have P: "\<forall>x\<in>set ?P. \<exists>y. x = Inr y"
    using assms(3) by (intro from_doc_all_Inr) blast
  have A: "\<forall>x\<in>set ?A. \<exists>y. x = Inr y"
    using assms(4) by (intro from_doc_all_Inr) (simp add: is_error_handler_def)
  have W: "\<forall>x\<in>set ?W. \<exists>y. x = Inr y"
    using assms(5) by (intro from_doc_all_Inr) (simp add: is_error_handler_def)
  have len: "length (from_doc B c v) = length (always_iterable v)" for c v
    by (simp add: from_doc_def)
  have all: "\<forall>x\<in>set (?P @ ?A @ ?W). \<exists>y. x = Inr y"
    using P A W by auto
  have 1: "Result_init B (NDict d) = Inr (View Result d)"
    using assms(1) by (simp add: Result_init_def new_no_error)
  have 2: "Result_iter B (View Result d) = Inr (?P @ ?A @ ?W)"
    using assms(2) by (simp add: Result_iter_def Result_info_present)
  have 3: "Result_len B (View Result d) = Inr (length (?P @ ?A @ ?W))"
    using assms(2) count_all_Inr [OF all]
    by (simp only: Result_len_def Result_info_present iterate_def sum.case attr.case)
  show ?thesis
    using 1 2 3 assms(2) count_all_Inr [OF P] count_all_Inr [OF A] count_all_Inr [OF W]
    by (simp add: Result_pods_present Result_assumptions_def Result_warnings_def len)
qed

theorem info_is_pods_assumptions_warnings_witness:
  "Result_iter no_builtins
     (View Result [(''pod'', Single (NDict [(''@title'', Single (NStr ''Input''))])),
                   (''warnings'', Single (NDict [(''@count'', Single (NStr ''1''))]))])
     = Inr [Inr (Obj (View Pod [(''@title'', Single (NStr ''Input''))])),
            Inr (Obj (View Warning [(''@count'', Single (NStr ''1''))]))]
   \<and> Result_len no_builtins
     (View Result [(''pod'', Single (NDict [(''@title'', Single (NStr ''Input''))])),
                   (''warnings'', Single (NDict [(''@count'', Single (NStr ''1''))]))])
     = Inr 2"
  using info_is_pods_assumptions_warnings
      [of "[(''pod'', Single (NDict [(''@title'', Single (NStr ''Input''))])),
            (''warnings'', Single (NDict [(''@count'', Single (NStr ''1''))]))]"
          "Single (NDict [(''@title'', Single (NStr ''Input''))])" no_builtins]
  by (simp add: lookup_def dict_get_def always_iterable_def from_doc_def new_no_error new_plain
      is_error_handler_def)

section \<open>The text of a pod\<close>

text \<open>
  C9. The claim fails for a pod that has no subpods because its mapping has no
  \<^verbatim>\<open>subpod\<close> key: \<^verbatim>\<open>Pod.text\<close> then raises AttributeError, the missing-attribute
  failure, not an empty-sequence failure.
\<close>

theorem pod_without_subpods_counterexample:
  "new no_builtins Pod (NDict [(''@title'', Single (NStr ''Input'')), (''@numsubpods'', Single (NStr ''0''))])
     = Inr (View Pod [(''@title'', Single (NStr ''Input'')), (''@numsubpods'', Single (NStr ''0''))])
   \<and> Pod_text no_builtins (View Pod [(''@title'', Single (NStr ''Input'')), (''@numsubpods'', Single (NStr ''0''))])
     = Inl (AttributeError ''text'')"
  by (simp add: new_no_error Pod_text_def property_def getattr_lookup lookup_def)

text \<open>
  C9, amended. For a pod whose \<^verbatim>\<open>subpod\<close> field is present: when its first subpod is a
  mapping with a plain text, \<^verbatim>\<open>Pod.text\<close> returns that plain text; when the field yields
  no subpod, \<^verbatim>\<open>Pod.text\<close> raises StopIteration, the failure of an empty iterator. For a
  pod without a \<^verbatim>\<open>subpod\<close> field (and without a \<^verbatim>\<open>text\<close> field), \<^verbatim>\<open>Pod.text\<close> raises
  AttributeError.
\<close>

theorem pod_text_first_subpod:
  "(cls_of p = Pod \<and> lookup (items p) ''subpod'' = Some v \<and> always_iterable v = NDict m # ns
      \<and> lookup m ''plaintext'' = Some t
      \<longrightarrow> Pod_text B p = Inr (Raw t))
   \<and> (cls_of p = Pod \<and> lookup (items p) ''subpod'' = Some v \<and> always_iterable v = []
      \<longrightarrow> Pod_text B p = Inl StopIteration)
   \<and> (lookup (items p) ''subpod'' = None \<and> lookup (items p) ''text'' = None
      \<longrightarrow> Pod_text B p = Inl (AttributeError ''text''))"
  by (simp add: Pod_text_def property_def getattr_lookup conversion_simps conv_from_doc_def
      iterate_def from_doc_def new_plain is_error_handler_def elem_getattr_def)

theorem pod_text_first_subpod_witness:
  "Pod_text no_builtins
     (View Pod [(''@title'', Single (NStr ''Result'')),
                (''subpod'', Many [NDict [(''plaintext'', Single (NStr ''3.14159''))],
                                   NDict [(''plaintext'', Single (NStr ''pi''))]])])
     = Inr (Raw (Single (NStr ''3.14159'')))
   \<and> Pod_text no_builtins (View Pod [(''@title'', Single (NStr ''Result'')), (''subpod'', Single NNone)])
     = Inl StopIteration
   \<and> Pod_text no_builtins (View Pod [(''@title'', Single (NStr ''Result''))])
     = Inl (AttributeError ''text'')"
  using pod_text_first_subpod
      [of "View Pod [(''@title'', Single (NStr ''Result'')),
                     (''subpod'', Many [NDict [(''plaintext'', Single (NStr ''3.14159''))],
                                        NDict [(''plaintext'', Single (NStr ''pi''))]])]"
          "Many [NDict [(''plaintext'', Single (NStr ''3.14159''))], NDict [(''plaintext'', Single (NStr ''pi''))]]"
          "[(''plaintext'', Single (NStr ''3.14159''))]"
          "[NDict [(''plaintext'', Single (NStr ''pi''))]]"
          "Single (NStr ''3.14159'')" no_builtins]
    pod_text_first_subpod
      [of "View Pod [(''@title'', Single (NStr ''Result'')), (''subpod'', Single NNone)]"
          "Single NNone" _ _ _ no_builtins]
    pod_text_first_subpod
      [of "View Pod [(''@title'', Single (NStr ''Result''))]" _ _ _ _ no_builtins]
  by (simp add: lookup_def always_iterable_def)

section \<open>Decoding a boolean attribute\<close>

text \<open>
  C5. The claim that every string other than \<^verbatim>\<open>true\<close> and \<^verbatim>\<open>false\<close> raises fails:
  \<^verbatim>\<open>xml_bool\<close> returns true for \<^verbatim>\<open>1\<close> and false for \<^verbatim>\<open>0\<close> and for \<^verbatim>\<open>null\<close>.
\<close>

theorem xml_bool_coerces_counterexample:
  "xml_bool (Single (NStr ''1'')) = Inr True
   \<and> xml_bool (Single (NStr ''0'')) = Inr False
   \<and> xml_bool (Single (NStr ''null'')) = Inr False"
  by code_simp

text \<open>
  C5, amended. \<^verbatim>\<open>xml_bool\<close> maps \<^verbatim>\<open>true\<close> to true and \<^verbatim>\<open>false\<close> to false and raises
  a decoding error for \<^verbatim>\<open>maybe\<close>. For every string, it returns the truth value of the
  JSON value that the string decodes to, and raises a decoding error, and no other
  error, when the string is not a JSON document; the decoder always comes to a result
  within its bound.
\<close>

theorem xml_bool_is_json_truth:
  "xml_bool (Single (NStr ''true'')) = Inr True
   \<and> xml_bool (Single (NStr ''false'')) = Inr False
   \<and> xml_bool (Single (NStr ''maybe'')) = Inl JSONDecodeError
   \<and> xml_bool (Single (NStr s))
       = (case json_loads s of Inr j \<Rightarrow> Inr (py_bool j) | Inl e \<Rightarrow> Inl JSONDecodeError)
   \<and> (\<exists>res. scan_once (2 * length s + 1) (skip_ws s) = Some res)"
proof -
  have 1: "xml_bool (Single (NStr ''true'')) = Inr True" by code_simp
  have 2: "xml_bool (Single (NStr ''false'')) = Inr False" by code_simp
  have 3: "xml_bool (Single (NStr ''maybe'')) = Inl JSONDecodeError" by code_simp
  have 4: "xml_bool (Single (NStr s))
       = (case json_loads s of Inr j \<Rightarrow> Inr (py_bool j) | Inl e \<Rightarrow> Inl JSONDecodeError)"
  proof (cases "json_loads s")
    case (Inl e)
    with json_loads_error have "e = JSONDecodeError" by blast
    with Inl show ?thesis by (simp add: xml_bool_def)
  next
    case (Inr j)
    then show ?thesis by (simp add: xml_bool_def)
  qed
  have 5: "\<exists>res. scan_once (2 * length s + 1) (skip_ws s) = Some res"
    using json_loads_total [of s] by auto
  from 1 2 3 4 5 show ?thesis by blast
qed

theorem xml_bool_is_json_truth_witness:
  "xml_bool (Single (NStr '' true '')) = Inr True \<and> xml_bool (Single (NStr ''[]'')) = Inr False
   \<and> xml_bool (Single (NStr ''True'')) = Inl JSONDecodeError"
proof -
  have a: "json_loads '' true '' = Inr (JBool True)" by code_simp
  have b: "json_loads ''[]'' = Inr (JArray [])" by code_simp
  have c: "json_loads ''True'' = Inl JSONDecodeError" by code_simp
  show ?thesis
    using xml_bool_is_json_truth [of "'' true ''"] xml_bool_is_json_truth [of "''[]''"]
      xml_bool_is_json_truth [of "''True''"]
    unfolding a b c
    by (simp add: py_bool_def)
qed

section \<open>Primary results\<close>

text \<open>
  C8. The claim fails for results whose pods cannot all be read: on a response without
  pods \<^verbatim>\<open>Result.results\<close> raises AttributeError, and a pod whose primary flag is no
  JSON document, or a pod that is not primary and has no title, makes the generator
  raise where it reaches that pod.
\<close>

theorem results_raise_counterexample:
  "Result_init no_builtins (NDict [(''@success'', Single (NStr ''false'')), (''@numpods'', Single (NStr ''0''))])
     = Inr (View Result [(''@success'', Single (NStr ''false'')), (''@numpods'', Single (NStr ''0''))])
   \<and> Result_results no_builtins
       (View Result [(''@success'', Single (NStr ''false'')), (''@numpods'', Single (NStr ''0''))])
     = Inl (AttributeError ''results'')
   \<and> Result_results no_builtins
       (View Result [(''pod'', Many [NDict [(''@title'', Single (NStr ''Result'')),
                                            (''@primary'', Single (NStr ''maybe''))]])])
     = Inr (Iter [Inl JSONDecodeError])
   \<and> Result_results no_builtins
       (View Result [(''pod'', Many [NDict [(''@id'', Single (NStr ''Input''))],
                                     NDict [(''@title'', Single (NStr ''Result''))]])])
     = Inr (Iter [Inl (AttributeError ''title'')])"
  by code_simp

text \<open>
  C8, amended. For a result whose \<^verbatim>\<open>pod\<close> field is present and whose pods are mappings
  without an error block, each with a primary flag that decodes (the attribute is absent
  or is a JSON document) and with a title where the flag is false, \<^verbatim>\<open>Result.results\<close>
  is the subsequence, in pod order, of the pods whose primary flag is true or whose title
  is the string \<^verbatim>\<open>Result\<close>. A pod without the key \<^verbatim>\<open>'@primary'\<close> has the primary flag
  false, and reading it does not raise.
\<close>

theorem results_of_readable_pods:
  assumes "lookup d ''pod'' = Some pv"
    and "always_iterable pv = map NDict ms"
    and "\<forall>m\<in>set ms. map_of m ''error'' = None
           \<and> (\<exists>b. Pod_primary (View Pod m) = Inr b \<and> (\<not> b \<longrightarrow> lookup m ''title'' \<noteq> None))"
  shows "Result_pods B (View Result d) = Inr (Iter (map (\<lambda>m. Inr (Obj (View Pod m))) ms))
    \<and> Result_results B (View Result d)
        = Inr (Iter (map (\<lambda>m. Inr (Obj (View Pod m))) (filter is_result_pod ms)))
    \<and> (map_of (items q) ''@primary'' = None \<longrightarrow> Pod_primary q = Inr False)"
proof -
  have "map (\<lambda>n. map_sum id Obj (new B Pod n)) (map NDict ms) = map (\<lambda>m. Inr (Obj (View Pod m))) ms"
    using assms(3) by (simp add: new_no_error)
  then have pods: "Result_pods B (View Result d) = Inr (Iter (map (\<lambda>m. Inr (Obj (View Pod m))) ms))"
    using assms(1,2) by (simp add: Result_pods_present from_doc_def)
  have gen: "results_gen B (map (\<lambda>m. Inr (Obj (View Pod m))) ms)
         = map (\<lambda>m. Inr (Obj (View Pod m))) (filter is_result_pod ms)"
    using assms(3) by (intro results_gen_filter) blast
  have res: "Result_results B (View Result d)
        = Inr (Iter (map (\<lambda>m. Inr (Obj (View Pod m))) (filter is_result_pod ms)))"
    by (simp add: Result_results_def pods property_def iterate_def gen)
  have prim: "map_of (items q) ''@primary'' = None \<longrightarrow> Pod_primary q = Inr False"
    by (simp add: Pod_primary_def)
  from pods res prim show ?thesis by blast
qed

theorem results_of_readable_pods_witness:
  "Result_results no_builtins
     (View Result [(''pod'', Many [NDict [(''@title'', Single (NStr ''Input''))],
                                   NDict [(''@title'', Single (NStr ''Result'')),
                                          (''@primary'', Single (NStr ''false''))],
                                   NDict [(''@title'', Single (NStr ''Plot'')),
                                          (''@primary'', Single (NStr ''false''))],
                                   NDict [(''@title'', Single (NStr ''Decimal approximation'')),
                                          (''@primary'', Single (NStr ''true''))]])])
     = Inr (Iter [Inr (Obj (View Pod [(''@title'', Single (NStr ''Result'')),
                                      (''@primary'', Single (NStr ''false''))])),
                  Inr (Obj (View Pod [(''@title'', Single (NStr ''Decimal approximation'')),
                                      (''@primary'', Single (NStr ''true''))]))])
   \<and> Pod_primary (View Pod [(''@title'', Single (NStr ''Input''))]) = Inr False"
proof -
  let ?m1 = "[(''@title'', Single (NStr ''Input''))]"
  let ?m2 = "[(''@title'', Single (NStr ''Result'')), (''@primary'', Single (NStr ''false''))]"
  let ?m3 = "[(''@title'', Single (NStr ''Plot'')), (''@primary'', Single (NStr ''false''))]"
  let ?m4 = "[(''@title'', Single (NStr ''Decimal approximation'')), (''@primary'', Single (NStr ''true''))]"
  let ?pv = "Many [NDict ?m1, NDict ?m2, NDict ?m3, NDict ?m4]"
  have p1: "Pod_primary (View Pod ?m1) = Inr False" by code_simp
  have p2: "Pod_primary (View Pod ?m2) = Inr False" by code_simp
  have p3: "Pod_primary (View Pod ?m3) = Inr False" by code_simp
  have p4: "Pod_primary (View Pod ?m4) = Inr True" by code_simp
  have f: "filter is_result_pod [?m1, ?m2, ?m3, ?m4] = [?m2, ?m4]" by code_simp
  have hyp: "\<forall>m\<in>set [?m1, ?m2, ?m3, ?m4]. map_of m ''error'' = None
           \<and> (\<exists>b. Pod_primary (View Pod m) = Inr b \<and> (\<not> b \<longrightarrow> lookup m ''title'' \<noteq> None))"
    using p1 p2 p3 p4 by (auto simp: lookup_def)
  have "lookup [(''pod'', ?pv)] ''pod'' = Some ?pv" by (simp add: lookup_def)
  moreover have "always_iterable ?pv = map NDict [?m1, ?m2, ?m3, ?m4]"
    by (simp add: always_iterable_def)
  ultimately show ?thesis
    using results_of_readable_pods [of "[(''pod'', ?pv)]" ?pv "[?m1, ?m2, ?m3, ?m4]" no_builtins
        "View Pod ?m1"] hyp
    unfolding f
    by simp
qed

section \<open>The text of an assumption\<close>



section \<open>The details of a result\<close>

text \<open>
  C1. At a response with one pod titled \<^verbatim>\<open>Result\<close> whose one subpod has the plain text
  \<^verbatim>\<open>3.14159\<close>, the \<^verbatim>\<open>Result\<close> is constructed and \<^verbatim>\<open>Pod.text\<close> of its pod is that plain
  text, but \<^verbatim>\<open>Result.details\<close> raises AttributeError: it reads \<^verbatim>\<open>pod.plainText\<close>, a
  field that a pod does not have.
\<close>

theorem details_reads_plainText:
  "Result_init no_builtins
     (NDict [(''pod'', Single (NDict [(''@title'', Single (NStr ''Result'')),
                                      (''subpod'', Single (NDict [(''plaintext'', Single (NStr ''3.14159''))]))]))])
     = Inr (View Result
        [(''pod'', Single (NDict [(''@title'', Single (NStr ''Result'')),
                                  (''subpod'', Single (NDict [(''plaintext'', Single (NStr ''3.14159''))]))]))])
   \<and> Result_details no_builtins
     (View Result
        [(''pod'', Single (NDict [(''@title'', Single (NStr ''Result'')),
                                  (''subpod'', Single (NDict [(''plaintext'', Single (NStr ''3.14159''))]))]))])
     = Inl (AttributeError ''details'')
   \<and> Pod_text no_builtins
     (View Pod [(''@title'', Single (NStr ''Result'')),
                (''subpod'', Single (NDict [(''plaintext'', Single (NStr ''3.14159''))]))])
     = Inr (Raw (Single (NStr ''3.14159'')))"
  by code_simp

end
